theory Spec2Isabelle
  imports Complex_Main
begin

section \<open>JavaScript values and objects\<close>

text \<open>
  The broker layer and the market-data layer are two JavaScript classes,
  \<^verbatim>\<open>BrokerIntegration\<close> and \<^verbatim>\<open>MarketDataService\<close>. Numbers are modelled as
  reals (exact arithmetic on finite values: no NaN, no infinities, no rounding), strings as
  \<^typ>\<open>string\<close>. An object received from the venue is a finite map from property names to
  values; \<open>Builtin n\<close> stands for the built-in object that every plain object inherits
  under the name \<open>n\<close> from \<^verbatim>\<open>Object.prototype\<close>.
\<close>

datatype jsval = Undefined | Null | Bool bool | Num real | Str string | Builtin string

type_synonym obj = "string \<rightharpoonup> jsval"

text \<open>The properties every object literal inherits from \<^verbatim>\<open>Object.prototype\<close>.\<close>

definition object_prototype :: "(string \<times> jsval) list" where
  "object_prototype =
     [(''constructor'', Builtin ''constructor''),
      (''__defineGetter__'', Builtin ''__defineGetter__''),
      (''__defineSetter__'', Builtin ''__defineSetter__''),
      (''hasOwnProperty'', Builtin ''hasOwnProperty''),
      (''__lookupGetter__'', Builtin ''__lookupGetter__''),
      (''__lookupSetter__'', Builtin ''__lookupSetter__''),
      (''isPrototypeOf'', Builtin ''isPrototypeOf''),
      (''propertyIsEnumerable'', Builtin ''propertyIsEnumerable''),
      (''toString'', Builtin ''toString''),
      (''valueOf'', Builtin ''valueOf''),
      (''__proto__'', Builtin ''__proto__''),
      (''toLocaleString'', Builtin ''toLocaleString'')]"

text \<open>
  Property read \<^verbatim>\<open>o[k]\<close> / \<^verbatim>\<open>o.k\<close>: the object's own property, else the inherited
  one, else \<^verbatim>\<open>undefined\<close>.
\<close>

definition get_field :: "obj \<Rightarrow> string \<Rightarrow> jsval" where
  "get_field ob k =
     (case ob k of
        Some v \<Rightarrow> v
      | None \<Rightarrow> (case map_of object_prototype k of Some v \<Rightarrow> v | None \<Rightarrow> Undefined))"

text \<open>Truthiness, as \<^verbatim>\<open>if (x)\<close>, \<^verbatim>\<open>x && y\<close> and \<^verbatim>\<open>x || y\<close> test it.\<close>

fun truthy :: "jsval \<Rightarrow> bool" where
  "truthy Undefined = False"
| "truthy Null = False"
| "truthy (Bool b) = b"
| "truthy (Num x) = (x \<noteq> 0)"
| "truthy (Str s) = (s \<noteq> [])"
| "truthy (Builtin n) = True"

text \<open>\<^verbatim>\<open>Object.assign(target, source)\<close>: every own property of the source overwrites.\<close>

definition Object_assign :: "obj \<Rightarrow> obj \<Rightarrow> obj" where
  "Object_assign target source = target ++ source"

datatype error = Error string | AxiosError string | TypeError string

section \<open>BrokerIntegration\<close>

subsection \<open>Data\<close>

record broker =
  name :: string
  brk_baseUrl :: string
  brk_streamUrl :: string
  demoUrl :: "string option"
  demoStreamUrl :: "string option"
  liveUrl :: "string option"
  liveStreamUrl :: "string option"

text \<open>\<^verbatim>\<open>this.brokers\<close> (lines 8-16): one entry; it has no \<^verbatim>\<open>liveUrl\<close>.\<close>

definition oanda :: broker where
  "oanda = \<lparr> name = ''OANDA'',
             brk_baseUrl = ''https://api-fxtrade.oanda.com'',
             brk_streamUrl = ''https://stream-fxtrade.oanda.com'',
             demoUrl = Some ''https://api-fxpractice.oanda.com'',
             demoStreamUrl = Some ''https://stream-fxpractice.oanda.com'',
             liveUrl = None,
             liveStreamUrl = None \<rparr>"

definition brokers :: "string \<rightharpoonup> broker" where
  "brokers = [''oanda'' \<mapsto> oanda]"

text \<open>\<^verbatim>\<open>a || b\<close> on an optional string: the empty string and \<^verbatim>\<open>undefined\<close> are falsy.\<close>

definition or_else :: "string option \<Rightarrow> string \<Rightarrow> string" where
  "or_else a b = (case a of Some s \<Rightarrow> (if s \<noteq> [] then s else b) | None \<Rightarrow> b)"

record credentials =
  apiKey :: string

record account =
  account_id :: string

record connection =
  brokerId :: string
  isDemo :: bool
  baseUrl :: string
  streamUrl :: string
  creds :: credentials
  connected :: bool
  account :: "account option"
  accountInfo :: "obj option"
  positions :: "jsval \<rightharpoonup> obj"
  orders :: "jsval \<rightharpoonup> obj"
  stream :: "nat option"

record BrokerIntegration =
  connections :: "string \<rightharpoonup> connection"
  accounts :: "string \<rightharpoonup> obj"

subsection \<open>The venue\<close>

text \<open>
  The network is a parameter: what each request answers. \<open>Inl\<close> is a rejected promise
  (network error, timeout, or a status outside 2xx, which axios rejects), \<open>Inr\<close> the
  response. \<open>io_open\<close> is the socket.io client constructor \<^verbatim>\<open>io(url, {auth})\<close>: it returns
  a socket handle at once, before any connection exists. Whether a socket opened for a
  url and token ever connects is \<open>stream_connects\<close>; the client learns of it only through
  the socket's \<^verbatim>\<open>'connect'\<close> and \<^verbatim>\<open>'connect_error'\<close> events.

  The account-discovery request carries a timeout of 10 s, so a venue that stays silent is
  a rejection of \<open>get_accounts\<close>. The account-detail request carries none: \<open>get_account\<close>
  gives the outcome of a request that settles, and a request that is never answered is
  not a value of this type.
\<close>

record accounts_response =
  status :: nat
  data_accounts :: "account list option"

text \<open>
  The body of an order request. An absent property is \<open>None\<close>; the block
  \<^verbatim>\<open>{ price: x }\<close> of \<^verbatim>\<open>stopLossOnFill\<close> and \<^verbatim>\<open>takeProfitOnFill\<close> is \<open>Some x\<close>.
\<close>

record order =
  order_type :: string
  instrument :: string
  order_units :: real
  timeInForce :: string
  positionFill :: string
  order_price :: "real option"
  stopLossOnFill :: "real option"
  takeProfitOnFill :: "real option"

record venue =
  get_accounts :: "string \<Rightarrow> string \<Rightarrow> error + accounts_response"
  get_account :: "string \<Rightarrow> string \<Rightarrow> string \<Rightarrow> error + obj"
  io_open :: "string \<Rightarrow> string \<Rightarrow> nat"
  stream_connects :: "string \<Rightarrow> string \<Rightarrow> bool"
  post_order :: "string \<Rightarrow> string \<Rightarrow> string \<Rightarrow> order \<Rightarrow> error + obj"

subsection \<open>Connecting (lines 19-127)\<close>

definition authenticateOanda :: "venue \<Rightarrow> connection \<Rightarrow> error + connection" where
  "authenticateOanda v c =
     (case get_accounts v (baseUrl c) (apiKey (creds c)) of
        Inl e \<Rightarrow> Inl e
      | Inr response \<Rightarrow>
          if status response \<noteq> 200 then Inl (Error ''OANDA authentication failed'')
          else (case data_accounts response of
                  None \<Rightarrow> Inl (TypeError ''Cannot read properties of undefined (reading 0)'')
                | Some as \<Rightarrow>
                    Inr (c\<lparr> account := (case as of [] \<Rightarrow> None | a # _ \<Rightarrow> Some a),
                            connected := True \<rparr>)))"

definition authenticate :: "venue \<Rightarrow> connection \<Rightarrow> error + connection" where
  "authenticate v c = authenticateOanda v c"

definition getOandaAccountInfo :: "venue \<Rightarrow> connection \<Rightarrow> error + connection" where
  "getOandaAccountInfo v c =
     (case account c of
        None \<Rightarrow> Inl (TypeError ''Cannot read properties of undefined (reading id)'')
      | Some a \<Rightarrow>
          (case get_account v (baseUrl c) (account_id a) (apiKey (creds c)) of
             Inl e \<Rightarrow> Inl e
           | Inr d \<Rightarrow> Inr (c\<lparr> accountInfo := Some d \<rparr>)))"

definition getAccountInfo :: "venue \<Rightarrow> connection \<Rightarrow> error + connection" where
  "getAccountInfo v c = getOandaAccountInfo v c"

text \<open>
  \<^verbatim>\<open>connectOandaStream\<close> (lines 101-127) creates the socket, registers the
  \<^verbatim>\<open>'connect'\<close>, \<^verbatim>\<open>'pricing'\<close> and \<^verbatim>\<open>'transaction'\<close> handlers and stores the socket in the
  connection. It waits for no event and registers no \<^verbatim>\<open>'connect_error'\<close> handler, so it
  never reads \<open>stream_connects\<close> and has no failing path.
\<close>

definition connectOandaStream :: "venue \<Rightarrow> connection \<Rightarrow> connection" where
  "connectOandaStream v c =
     (let socket = io_open v (streamUrl c) (apiKey (creds c)) in c\<lparr> stream := Some socket \<rparr>)"

definition connectToStream :: "venue \<Rightarrow> connection \<Rightarrow> connection" where
  "connectToStream v c = connectOandaStream v c"

text \<open>The connection object of lines 27-37, before any request is made.\<close>

definition new_connection :: "broker \<Rightarrow> string \<Rightarrow> credentials \<Rightarrow> bool \<Rightarrow> connection" where
  "new_connection b bid cr demo =
     \<lparr> brokerId = bid,
       isDemo = demo,
       baseUrl = (if demo then or_else (demoUrl b) (brk_baseUrl b)
                  else or_else (liveUrl b) (brk_baseUrl b)),
       streamUrl = (if demo then or_else (demoStreamUrl b) (brk_streamUrl b)
                    else or_else (liveStreamUrl b) (brk_streamUrl b)),
       creds = cr,
       connected = False,
       account = None,
       accountInfo = None,
       positions = Map.empty,
       orders = Map.empty,
       stream = None \<rparr>"

text \<open>
  \<^verbatim>\<open>connectToBroker\<close> returns the outcome (the thrown error or the connection) and the
  \<^verbatim>\<open>BrokerIntegration\<close> object after the call.
\<close>

definition connectToBroker ::
  "venue \<Rightarrow> BrokerIntegration \<Rightarrow> string \<Rightarrow> credentials \<Rightarrow> bool
     \<Rightarrow> (error + connection) \<times> BrokerIntegration" where
  "connectToBroker v this bid cr demo =
     (if bid \<noteq> ''oanda'' then (Inl (Error ''Only OANDA is supported''), this)
      else (case brokers bid of
              None \<Rightarrow> (Inl (Error (''Unsupported broker: '' @ bid)), this)
            | Some b \<Rightarrow>
                (case authenticate v (new_connection b bid cr demo) of
                   Inl e \<Rightarrow> (Inl e, this)
                 | Inr c1 \<Rightarrow>
                     (case getAccountInfo v c1 of
                        Inl e \<Rightarrow> (Inl e, this)
                      | Inr c2 \<Rightarrow>
                          (let c3 = connectToStream v c2 in
                           (Inr c3,
                            this\<lparr> connections := (connections this)(bid \<mapsto> c3) \<rparr>))))))"

subsection \<open>Transaction events (lines 140-147, 227-242)\<close>

definition updatePosition :: "connection \<Rightarrow> obj \<Rightarrow> connection" where
  "updatePosition c transactionData =
     (let positionId = get_field transactionData ''positionId'' in
      case positions c positionId of
        Some position \<Rightarrow>
          c\<lparr> positions := (positions c)(positionId \<mapsto> Object_assign position transactionData) \<rparr>
      | None \<Rightarrow> c)"

definition cancelOrder :: "connection \<Rightarrow> obj \<Rightarrow> connection" where
  "cancelOrder c transactionData =
     (let orderId = get_field transactionData ''orderId'' in
      c\<lparr> orders := (orders c)(orderId := None) \<rparr>)"

definition handleTransactionUpdate :: "connection \<Rightarrow> obj \<Rightarrow> connection" where
  "handleTransactionUpdate c d =
     (if get_field d ''type'' = Str ''ORDER_FILL'' then updatePosition c d
      else if get_field d ''type'' = Str ''ORDER_CANCEL'' then cancelOrder c d
      else c)"

subsection \<open>Unrealized P&L (lines 217-225)\<close>

text \<open>The three properties the function destructures from the position.\<close>

record position =
  side :: string
  units :: real
  averagePrice :: real

definition calculateUnrealizedPnL :: "position \<Rightarrow> real \<Rightarrow> real" where
  "calculateUnrealizedPnL p currentPrice =
     (if side p = ''BUY'' then (currentPrice - averagePrice p) * units p
      else (averagePrice p - currentPrice) * units p)"

subsection \<open>Placing an order (lines 153-195)\<close>

record orderParams =
  op_symbol :: string
  op_side :: string
  op_units :: real
  op_type :: "string option"
  op_price :: "real option"
  op_stopLoss :: "real option"
  op_takeProfit :: "real option"

text \<open>An optional number is truthy when it is there and not zero.\<close>

definition truthy_num :: "real option \<Rightarrow> bool" where
  "truthy_num x = (case x of Some r \<Rightarrow> r \<noteq> 0 | None \<Rightarrow> False)"

text \<open>
  \<^verbatim>\<open>orderData.order\<close> as it stands when the request is posted; \<^verbatim>\<open>type\<close> defaults to
  \<^verbatim>\<open>'MARKET'\<close>.
\<close>

definition orderData :: "orderParams \<Rightarrow> order" where
  "orderData p =
     (let type = (case op_type p of Some t \<Rightarrow> t | None \<Rightarrow> ''MARKET'');
          order0 = \<lparr> order_type = type,
                     instrument = op_symbol p,
                     order_units = (if op_side p = ''BUY'' then op_units p else - op_units p),
                     timeInForce = ''FOK'',
                     positionFill = ''DEFAULT'',
                     order_price = None,
                     stopLossOnFill = None,
                     takeProfitOnFill = None \<rparr>;
          order1 = (if type = ''LIMIT'' \<and> truthy_num (op_price p)
                    then order0\<lparr> order_price := op_price p \<rparr> else order0);
          order2 = (if truthy_num (op_stopLoss p)
                    then order1\<lparr> stopLossOnFill := op_stopLoss p \<rparr> else order1);
          order3 = (if truthy_num (op_takeProfit p)
                    then order2\<lparr> takeProfitOnFill := op_takeProfit p \<rparr> else order2)
      in order3)"

definition placeOandaOrder :: "venue \<Rightarrow> connection \<Rightarrow> orderParams \<Rightarrow> error + obj" where
  "placeOandaOrder v c p =
     (case account c of
        None \<Rightarrow> Inl (TypeError ''Cannot read properties of undefined (reading id)'')
      | Some a \<Rightarrow> post_order v (baseUrl c) (account_id a) (apiKey (creds c)) (orderData p))"

definition placeOrder :: "venue \<Rightarrow> connection \<Rightarrow> orderParams \<Rightarrow> error + obj" where
  "placeOrder v c p = placeOandaOrder v c p"

section \<open>MarketDataService\<close>

subsection \<open>Timeframes (lines 347-358)\<close>

text \<open>The own properties of the \<^verbatim>\<open>conversions\<close> object literal.\<close>

definition conversions :: obj where
  "conversions = map_of
     [(''1m'', Str ''M1''),
      (''5m'', Str ''M5''),
      (''15m'', Str ''M15''),
      (''30m'', Str ''M30''),
      (''1h'', Str ''H1''),
      (''4h'', Str ''H4''),
      (''1d'', Str ''D'')]"

definition convertTimeframe :: "string \<Rightarrow> jsval" where
  "convertTimeframe timeframe =
     (let g = get_field conversions timeframe in if truthy g then g else Str timeframe)"

text \<open>The tokens \<^verbatim>\<open>validateMarketDataRequest\<close> accepts (validation.js, line 147).\<close>

definition validTimeframes :: "string list" where
  "validTimeframes = [''1m'', ''5m'', ''15m'', ''30m'', ''1h'', ''4h'', ''1d'', ''1w'', ''1M'']"

subsection \<open>Ticks (lines 373-385)\<close>

text \<open>
  A price event as the stream delivers it. The numeric properties are numbers;
  \<^verbatim>\<open>volume\<close>, \<^verbatim>\<open>change\<close> and \<^verbatim>\<open>change_percent\<close> may be absent.
\<close>

record price_event =
  ev_instrument :: string
  ev_price :: real
  ev_bid :: real
  ev_ask :: real
  ev_volume :: "real option"
  ev_change :: "real option"
  ev_change_percent :: "real option"

record tick =
  symbol :: string
  price :: real
  bid :: real
  ask :: real
  spread :: real
  timestamp :: int
  volume :: real
  change :: real
  changePercent :: real

text \<open>\<^verbatim>\<open>parseFloat\<close> of a finite number is that number.\<close>

definition parseFloat :: "real \<Rightarrow> real" where
  "parseFloat x = x"

text \<open>\<^verbatim>\<open>x || 0\<close> on an optional number.\<close>

definition or_zero :: "real option \<Rightarrow> real" where
  "or_zero x = (case x of Some r \<Rightarrow> (if r \<noteq> 0 then r else 0) | None \<Rightarrow> 0)"

text \<open>
  \<open>now\<close> is the clock read by \<^verbatim>\<open>new Date()\<close>, in milliseconds; the tick keeps the
  instant that \<^verbatim>\<open>toISOString\<close> prints.
\<close>

definition processRealTimeData :: "int \<Rightarrow> price_event \<Rightarrow> tick" where
  "processRealTimeData now d =
     \<lparr> symbol = ev_instrument d,
       price = parseFloat (ev_price d),
       bid = parseFloat (ev_bid d),
       ask = parseFloat (ev_ask d),
       spread = parseFloat (ev_ask d) - parseFloat (ev_bid d),
       timestamp = now,
       volume = parseFloat (or_zero (ev_volume d)),
       change = parseFloat (or_zero (ev_change d)),
       changePercent = parseFloat (or_zero (ev_change_percent d)) \<rparr>"

subsection \<open>The snapshot cache (lines 401-418)\<close>

text \<open>
  What \<^verbatim>\<open>processHistoricalData\<close> produces per candle; unlike a tick it carries a
  \<^verbatim>\<open>timeframe\<close>.
\<close>

record candle =
  c_symbol :: string
  c_timeframe :: string
  c_timestamp :: int
  c_open :: real
  c_high :: real
  c_low :: real
  c_close :: real
  c_volume :: real
  c_spread :: real

datatype snapshot = Tick tick | Candle candle

text \<open>\<^verbatim>\<open>data.timeframe || 'realtime'\<close>.\<close>

fun timeframe_or_realtime :: "snapshot \<Rightarrow> string" where
  "timeframe_or_realtime (Tick t) = ''realtime''"
| "timeframe_or_realtime (Candle c) = (if c_timeframe c \<noteq> [] then c_timeframe c else ''realtime'')"

record cache_entry =
  data :: snapshot
  cachedAt :: int

text \<open>The template string \<^verbatim>\<open>`${symbol}_${timeframe}`\<close>.\<close>

definition cache_key :: "string \<Rightarrow> string \<Rightarrow> string" where
  "cache_key symb timeframe = symb @ ''_'' @ timeframe"

text \<open>A socket is a handle; a pending \<^verbatim>\<open>setTimeout\<close> holds what its closure captured.\<close>

record timer =
  due :: int
  t_symbol :: string
  t_callback :: nat

record MarketDataService =
  subscribers :: "string \<rightharpoonup> nat list"
  md_connections :: "string \<rightharpoonup> nat"
  cache :: "string \<rightharpoonup> cache_entry"

text \<open>\<open>now\<close> is the value of \<^verbatim>\<open>Date.now()\<close>, in milliseconds.\<close>

definition updateCache :: "int \<Rightarrow> MarketDataService \<Rightarrow> string \<Rightarrow> snapshot \<Rightarrow> MarketDataService" where
  "updateCache now this symb d =
     this\<lparr> cache := (cache this)(cache_key symb (timeframe_or_realtime d)
                                   \<mapsto> \<lparr> data = d, cachedAt = now \<rparr>) \<rparr>"

text \<open>
  \<^verbatim>\<open>getCachedData\<close> returns the snapshot (\<open>None\<close> for \<^verbatim>\<open>null\<close>) together with the
  service after the call.
\<close>

definition getCachedData ::
  "int \<Rightarrow> MarketDataService \<Rightarrow> string \<Rightarrow> string \<Rightarrow> snapshot option \<times> MarketDataService" where
  "getCachedData now this symb timeframe =
     (case cache this (cache_key symb timeframe) of
        Some cached \<Rightarrow>
          (if now - cachedAt cached < 60000 then (Some (data cached), this) else (None, this))
      | None \<Rightarrow> (None, this))"

subsection \<open>The streaming connection (lines 278-305, 420-426)\<close>

text \<open>
  The service together with what the event loop holds for it: the handlers registered on
  each socket (the symbol and callback their closures captured), the pending timers, and
  the next fresh socket handle.
\<close>

record runtime =
  service :: MarketDataService
  handlers :: "nat \<rightharpoonup> string \<times> nat"
  timers :: "timer list"
  fresh :: nat

definition md_connectToStream :: "runtime \<Rightarrow> string \<Rightarrow> nat \<Rightarrow> runtime" where
  "md_connectToStream rt symb callback =
     (let socket = fresh rt in
      rt\<lparr> service := (service rt)\<lparr> md_connections := (md_connections (service rt))(symb \<mapsto> socket) \<rparr>,
          handlers := (handlers rt)(socket \<mapsto> (symb, callback)),
          fresh := Suc socket \<rparr>)"

text \<open>
  The \<^verbatim>\<open>'disconnect'\<close> handler of a socket (lines 295-298):
  \<^verbatim>\<open>setTimeout(() => this.connectToStream(symbol, callback), 5000)\<close>.
\<close>

definition on_disconnect :: "runtime \<Rightarrow> int \<Rightarrow> nat \<Rightarrow> runtime" where
  "on_disconnect rt now socket =
     (case handlers rt socket of
        Some (symb, callback) \<Rightarrow>
          rt\<lparr> timers := timers rt @ [\<lparr> due = now + 5000, t_symbol = symb, t_callback = callback \<rparr>] \<rparr>
      | None \<Rightarrow> rt)"

text \<open>
  \<^verbatim>\<open>disconnect(symbol)\<close>. Whether the client library fires the socket's
  \<^verbatim>\<open>'disconnect'\<close> handlers when the socket is closed by hand is the parameter
  \<open>emits\<close>.
\<close>

definition md_disconnect :: "bool \<Rightarrow> runtime \<Rightarrow> int \<Rightarrow> string \<Rightarrow> runtime" where
  "md_disconnect emits rt now symb =
     (case md_connections (service rt) symb of
        Some socket \<Rightarrow>
          (let rt1 = (if emits then on_disconnect rt now socket else rt) in
           rt1\<lparr> service := (service rt1)\<lparr> md_connections := (md_connections (service rt1))(symb := None) \<rparr> \<rparr>)
      | None \<Rightarrow> rt)"

text \<open>
  The event loop at time \<open>now\<close>: every pending timer that is due runs its closure, in the
  order the timers were set; the others stay pending.
\<close>

fun fire_due :: "int \<Rightarrow> timer list \<Rightarrow> runtime \<Rightarrow> runtime" where
  "fire_due now [] rt = rt"
| "fire_due now (t # ts) rt =
     fire_due now ts
       (if due t \<le> now then md_connectToStream rt (t_symbol t) (t_callback t)
        else rt\<lparr> timers := timers rt @ [t] \<rparr>)"

definition run_timers :: "runtime \<Rightarrow> int \<Rightarrow> runtime" where
  "run_timers rt now = fire_due now (timers rt) (rt\<lparr> timers := [] \<rparr>)"

section \<open>Concrete inputs\<close>

text \<open>A demo connection with one open position and one working order.\<close>

definition position_p1 :: obj where
  "position_p1 = [''symbol'' \<mapsto> Str ''EUR_USD'', ''units'' \<mapsto> Num 1000]"

definition example_connection :: connection where
  "example_connection =
     \<lparr> brokerId = ''oanda'', isDemo = True,
       baseUrl = ''https://api-fxpractice.oanda.com'',
       streamUrl = ''https://stream-fxpractice.oanda.com'',
       creds = \<lparr> apiKey = ''key'' \<rparr>, connected = True,
       account = Some \<lparr> account_id = ''A1'' \<rparr>, accountInfo = None,
       positions = [Str ''p1'' \<mapsto> position_p1],
       orders = [Str ''o1'' \<mapsto> [''symbol'' \<mapsto> Str ''EUR_USD'']],
       stream = Some 0 \<rparr>"

text \<open>A fill for a position the ledger does not hold, and a fill that brings \<open>p1\<close> to zero units.\<close>

definition fill_new :: obj where
  "fill_new = [''type'' \<mapsto> Str ''ORDER_FILL'', ''positionId'' \<mapsto> Str ''p2'',
               ''orderId'' \<mapsto> Str ''o1'', ''units'' \<mapsto> Num 500]"

definition fill_zero :: obj where
  "fill_zero = [''type'' \<mapsto> Str ''ORDER_FILL'', ''positionId'' \<mapsto> Str ''p1'',
                ''orderId'' \<mapsto> Str ''o1'', ''units'' \<mapsto> Num 0]"

definition cancel_o1 :: obj where
  "cancel_o1 = [''type'' \<mapsto> Str ''ORDER_CANCEL'', ''orderId'' \<mapsto> Str ''o1'']"

text \<open>A registry that already holds a live session for \<open>oanda\<close>.\<close>

definition old_session :: connection where
  "old_session =
     \<lparr> brokerId = ''oanda'', isDemo = False,
       baseUrl = ''https://api-fxtrade.oanda.com'',
       streamUrl = ''https://stream-fxtrade.oanda.com'',
       creds = \<lparr> apiKey = ''old-key'' \<rparr>, connected = True,
       account = Some \<lparr> account_id = ''A1'' \<rparr>, accountInfo = Some Map.empty,
       positions = Map.empty, orders = Map.empty, stream = Some 0 \<rparr>"

definition registered :: BrokerIntegration where
  "registered = \<lparr> connections = [''oanda'' \<mapsto> old_session], accounts = Map.empty \<rparr>"

text \<open>
  A venue that answers every request and whose stream connects, one whose account-detail
  request is rejected, and one that answers every request but whose stream never connects.
\<close>

definition good_venue :: venue where
  "good_venue =
     \<lparr> get_accounts = (\<lambda>url key. Inr \<lparr> status = 200, data_accounts = Some [\<lparr> account_id = ''A2'' \<rparr>] \<rparr>),
       get_account = (\<lambda>url acc key. Inr [''id'' \<mapsto> Str acc]),
       io_open = (\<lambda>url token. 1),
       stream_connects = (\<lambda>url token. True),
       post_order = (\<lambda>url acc key body. Inr Map.empty) \<rparr>"

definition down_venue :: venue where
  "down_venue = good_venue\<lparr> get_account := (\<lambda>url acc key. Inl (AxiosError ''Request failed with status code 503'')) \<rparr>"

definition stream_down_venue :: venue where
  "stream_down_venue = good_venue\<lparr> stream_connects := (\<lambda>url token. False) \<rparr>"

text \<open>A registry with no session yet.\<close>

definition unregistered :: BrokerIntegration where
  "unregistered = \<lparr> connections = Map.empty, accounts = Map.empty \<rparr>"

text \<open>The session a second \<^verbatim>\<open>connectToBroker('oanda', {apiKey: 'new-key'}, true)\<close> builds.\<close>

definition new_session :: connection where
  "new_session =
     \<lparr> brokerId = ''oanda'', isDemo = True,
       baseUrl = ''https://api-fxpractice.oanda.com'',
       streamUrl = ''https://stream-fxpractice.oanda.com'',
       creds = \<lparr> apiKey = ''new-key'' \<rparr>, connected = True,
       account = Some \<lparr> account_id = ''A2'' \<rparr>, accountInfo = Some [''id'' \<mapsto> Str ''A2''],
       positions = Map.empty, orders = Map.empty, stream = Some 1 \<rparr>"

text \<open>A limit order whose price, stop loss and take profit are all given as 0.\<close>

definition zero_priced :: orderParams where
  "zero_priced =
     \<lparr> op_symbol = ''EUR_USD'', op_side = ''BUY'', op_units = 1000, op_type = Some ''LIMIT'',
       op_price = Some 0, op_stopLoss = Some 0, op_takeProfit = Some 0 \<rparr>"

text \<open>A price event whose bid is above its ask.\<close>

definition inverted_quote :: price_event where
  "inverted_quote =
     \<lparr> ev_instrument = ''EUR_USD'', ev_price = 2, ev_bid = 2, ev_ask = 1,
       ev_volume = None, ev_change = None, ev_change_percent = None \<rparr>"

text \<open>
  A service with nothing connected, and the same after \<^verbatim>\<open>connectToStream('EUR_USD', cb)\<close>
  followed, at time 0, by a network drop of the socket it opened.
\<close>

definition idle :: runtime where
  "idle = \<lparr> service = \<lparr> subscribers = Map.empty, md_connections = Map.empty, cache = Map.empty \<rparr>,
            handlers = Map.empty, timers = [], fresh = 0 \<rparr>"

definition dropped :: runtime where
  "dropped = on_disconnect (md_connectToStream idle ''EUR_USD'' 7) 0 0"

section \<open>Properties of the ledger\<close>

text \<open>
  C1. Unrealized P&L is \<open>(currentPrice - averagePrice) * units\<close> for a \<open>BUY\<close> position and
  \<open>(averagePrice - currentPrice) * units\<close> for any other side, so the short value is the
  negated long value; with zero units it is 0 at every price. The result is a function of
  the position and the price alone.
\<close>

theorem calculateUnrealizedPnL_formula:
  "calculateUnrealizedPnL p currentPrice =
     (if side p = ''BUY'' then (currentPrice - averagePrice p) * units p
      else (averagePrice p - currentPrice) * units p)
   \<and> calculateUnrealizedPnL (p\<lparr> side := ''SELL'' \<rparr>) currentPrice
       = - calculateUnrealizedPnL (p\<lparr> side := ''BUY'' \<rparr>) currentPrice
   \<and> calculateUnrealizedPnL (p\<lparr> units := 0 \<rparr>) currentPrice = 0"
  by (simp add: calculateUnrealizedPnL_def algebra_simps)

lemma get_field_fill_new:
  "get_field fill_new ''type'' = Str ''ORDER_FILL''"
  "get_field fill_new ''positionId'' = Str ''p2''"
  by (simp_all add: get_field_def fill_new_def)

lemma get_field_fill_zero:
  "get_field fill_zero ''type'' = Str ''ORDER_FILL''"
  "get_field fill_zero ''positionId'' = Str ''p1''"
  "get_field fill_zero ''units'' = Num 0"
  by (simp_all add: get_field_def fill_zero_def)

lemma get_field_cancel_o1:
  "get_field cancel_o1 ''type'' = Str ''ORDER_CANCEL''"
  "get_field cancel_o1 ''orderId'' = Str ''o1''"
  by (simp_all add: get_field_def cancel_o1_def)

text \<open>
  C2, as the spec states it, fails: a fill for a position the ledger does not hold creates
  nothing, a fill that brings a position to zero units leaves the position in the ledger
  (now with \<open>units = 0\<close>), and in both cases the filled order stays in the order set.
\<close>

theorem fill_upsert_counterexample:
  "positions example_connection (Str ''p2'') = None
   \<and> positions (handleTransactionUpdate example_connection fill_new) (Str ''p2'') = None
   \<and> orders (handleTransactionUpdate example_connection fill_new) (Str ''o1'')
       = orders example_connection (Str ''o1'')
   \<and> orders example_connection (Str ''o1'') \<noteq> None
   \<and> positions (handleTransactionUpdate example_connection fill_zero) (Str ''p1'')
       = Some (Object_assign position_p1 fill_zero)
   \<and> get_field (Object_assign position_p1 fill_zero) ''units'' = Num 0
   \<and> orders (handleTransactionUpdate example_connection fill_zero) (Str ''o1'')
       = orders example_connection (Str ''o1'')"
proof -
  have "get_field (Object_assign position_p1 fill_zero) ''units'' = Num 0"
    by (simp add: get_field_def Object_assign_def fill_zero_def)
  then show ?thesis
    by (simp add: handleTransactionUpdate_def updatePosition_def get_field_fill_new
        get_field_fill_zero example_connection_def)
qed

text \<open>
  C2, amended. On an \<open>ORDER_FILL\<close> event the ledger changes only where a position with the
  event's \<open>positionId\<close> exists: the event's properties are merged into that position, which
  stays in the ledger whatever its units become. When no such position exists nothing is
  created. The set of position ids and the order set are the same before and after.
\<close>

theorem fill_merges_existing_position:
  assumes "get_field d ''type'' = Str ''ORDER_FILL''"
  shows "positions (handleTransactionUpdate c d) =
           (case positions c (get_field d ''positionId'') of
              Some p \<Rightarrow> (positions c)(get_field d ''positionId'' \<mapsto> Object_assign p d)
            | None \<Rightarrow> positions c)
         \<and> dom (positions (handleTransactionUpdate c d)) = dom (positions c)
         \<and> orders (handleTransactionUpdate c d) = orders c"
  using assms
  by (auto simp add: handleTransactionUpdate_def updatePosition_def Let_def
      split: option.splits)

theorem fill_merges_existing_position_witness:
  "get_field fill_zero ''type'' = Str ''ORDER_FILL''
   \<and> positions (handleTransactionUpdate example_connection fill_zero)
       = [Str ''p1'' \<mapsto> Object_assign position_p1 fill_zero]
   \<and> dom (positions (handleTransactionUpdate example_connection fill_zero)) = {Str ''p1''}
   \<and> orders (handleTransactionUpdate example_connection fill_zero) = orders example_connection"
  using fill_merges_existing_position [OF get_field_fill_zero(1), of example_connection]
  by (simp add: get_field_fill_zero example_connection_def)

text \<open>
  C5. A cancel event removes the order with the event's \<open>orderId\<close>. Applying the same event
  a second time changes nothing, and applying it to a connection whose order set does not
  hold that id leaves the connection as it was.
\<close>

theorem cancel_idempotent:
  assumes "get_field d ''type'' = Str ''ORDER_CANCEL''"
  shows "handleTransactionUpdate (handleTransactionUpdate c d) d = handleTransactionUpdate c d
         \<and> orders (handleTransactionUpdate c d) = (orders c)(get_field d ''orderId'' := None)
         \<and> (orders c (get_field d ''orderId'') = None \<longrightarrow> handleTransactionUpdate c d = c)"
  using assms
  by (simp add: handleTransactionUpdate_def cancelOrder_def Let_def fun_upd_idem)

theorem cancel_idempotent_witness:
  "get_field cancel_o1 ''type'' = Str ''ORDER_CANCEL''
   \<and> orders example_connection (Str ''o1'') \<noteq> None
   \<and> orders (handleTransactionUpdate example_connection cancel_o1) = Map.empty
   \<and> handleTransactionUpdate (handleTransactionUpdate example_connection cancel_o1) cancel_o1
       = handleTransactionUpdate example_connection cancel_o1
   \<and> orders (example_connection\<lparr> orders := Map.empty \<rparr>) (get_field cancel_o1 ''orderId'') = None
   \<and> handleTransactionUpdate (example_connection\<lparr> orders := Map.empty \<rparr>) cancel_o1
       = example_connection\<lparr> orders := Map.empty \<rparr>"
  using cancel_idempotent [OF get_field_cancel_o1(1), of example_connection]
    cancel_idempotent [OF get_field_cancel_o1(1), of "example_connection\<lparr> orders := Map.empty \<rparr>"]
  by (simp add: get_field_cancel_o1) (simp add: example_connection_def)

section \<open>Properties of connecting\<close>

lemma connectToBroker_cases:
  "connectToBroker v this ident cr demo =
     (if ident \<noteq> ''oanda'' then (Inl (Error ''Only OANDA is supported''), this)
      else (case authenticate v (new_connection oanda ident cr demo) of
              Inl e \<Rightarrow> (Inl e, this)
            | Inr c1 \<Rightarrow>
                (case getAccountInfo v c1 of
                   Inl e \<Rightarrow> (Inl e, this)
                 | Inr c2 \<Rightarrow>
                     (Inr (connectToStream v c2),
                      this\<lparr> connections := (connections this)(ident \<mapsto> connectToStream v c2) \<rparr>))))"
  by (simp add: connectToBroker_def brokers_def Let_def split: sum.splits)

lemma authenticate_Inr:
  assumes "authenticate v c = Inr c1"
  shows "\<exists>r as. get_accounts v (baseUrl c) (apiKey (creds c)) = Inr r \<and> status r = 200
           \<and> data_accounts r = Some as
           \<and> c1 = c\<lparr> account := (case as of [] \<Rightarrow> None | a # _ \<Rightarrow> Some a), connected := True \<rparr>"
  using assms unfolding authenticate_def authenticateOanda_def
  by (simp split: sum.splits if_splits option.splits)

lemma getAccountInfo_Inr:
  assumes "getAccountInfo v c = Inr c2"
  shows "\<exists>a d. account c = Some a
           \<and> get_account v (baseUrl c) (account_id a) (apiKey (creds c)) = Inr d
           \<and> c2 = c\<lparr> accountInfo := Some d \<rparr>"
  using assms unfolding getAccountInfo_def getOandaAccountInfo_def
  by (simp split: sum.splits option.splits)

lemma connectToStream_eq:
  "connectToStream v c = c\<lparr> stream := Some (io_open v (streamUrl c) (apiKey (creds c))) \<rparr>"
  by (simp add: connectToStream_def connectOandaStream_def Let_def)

lemma connectToBroker_Inr:
  assumes "fst (connectToBroker v this ident cr demo) = Inr c"
  shows "ident = ''oanda'' \<and>
         (\<exists>c1 c2. authenticate v (new_connection oanda ident cr demo) = Inr c1
            \<and> getAccountInfo v c1 = Inr c2 \<and> connectToStream v c2 = c)
         \<and> snd (connectToBroker v this ident cr demo)
             = this\<lparr> connections := (connections this)(ident \<mapsto> c) \<rparr>"
  using assms unfolding connectToBroker_cases
  by (auto split: if_splits sum.splits)

lemma connect_registered:
  "connectToBroker good_venue registered ''oanda'' \<lparr> apiKey = ''new-key'' \<rparr> True
     = (Inr new_session, registered\<lparr> connections := [''oanda'' \<mapsto> new_session] \<rparr>)"
  by (simp add: connectToBroker_def brokers_def oanda_def new_connection_def or_else_def
      authenticate_def authenticateOanda_def getAccountInfo_def getOandaAccountInfo_def
      connectToStream_def connectOandaStream_def good_venue_def new_session_def registered_def
      Let_def)

lemma connect_stream_down:
  "connectToBroker stream_down_venue unregistered ''oanda'' \<lparr> apiKey = ''new-key'' \<rparr> True
     = (Inr new_session, unregistered\<lparr> connections := [''oanda'' \<mapsto> new_session] \<rparr>)"
  by (simp add: connectToBroker_def brokers_def oanda_def new_connection_def or_else_def
      authenticate_def authenticateOanda_def getAccountInfo_def getOandaAccountInfo_def
      connectToStream_def connectOandaStream_def stream_down_venue_def good_venue_def
      new_session_def unregistered_def Let_def)

text \<open>
  C3, as the spec states it, fails for the stream setup: on a venue that answers both
  requests but whose stream never connects, \<^verbatim>\<open>connectToBroker\<close> called on an empty
  registry does not fail; it returns a session and registers it under \<open>oanda\<close>.
\<close>

theorem stream_failure_registers_session_counterexample:
  "connections unregistered ''oanda'' = None
   \<and> \<not> stream_connects stream_down_venue (streamUrl new_session) (apiKey (creds new_session))
   \<and> fst (connectToBroker stream_down_venue unregistered ''oanda'' \<lparr> apiKey = ''new-key'' \<rparr> True)
       = Inr new_session
   \<and> connections
        (snd (connectToBroker stream_down_venue unregistered ''oanda'' \<lparr> apiKey = ''new-key'' \<rparr> True))
        ''oanda'' = Some new_session"
  by (simp add: connect_stream_down)
    (simp add: unregistered_def stream_down_venue_def good_venue_def)

text \<open>
  C3, amended. When the broker id is not the supported one (no endpoints are resolved),
  or the authentication and account-discovery request fails, or the account-detail
  request fails, \<^verbatim>\<open>connectToBroker\<close> fails with an error and the \<^verbatim>\<open>BrokerIntegration\<close>
  object, its connections registry included, is what it was before the call. The stream
  setup is not among these steps: once the two requests have succeeded,
  \<^verbatim>\<open>connectToBroker\<close> returns the session and registers it under the broker id, whether
  or not the stream connects.
\<close>

theorem connectToBroker_failure_registers_nothing:
  "((ident \<noteq> ''oanda''
      \<or> (\<exists>e. authenticate v (new_connection oanda ident cr demo) = Inl e)
      \<or> (\<exists>c1 e. authenticate v (new_connection oanda ident cr demo) = Inr c1
                 \<and> getAccountInfo v c1 = Inl e))
     \<longrightarrow> (\<exists>e. connectToBroker v this ident cr demo = (Inl e, this)))
   \<and> (\<forall>c1 c2. ident = ''oanda''
          \<and> authenticate v (new_connection oanda ident cr demo) = Inr c1
          \<and> getAccountInfo v c1 = Inr c2
        \<longrightarrow> connectToBroker v this ident cr demo
              = (Inr (connectToStream v c2),
                 this\<lparr> connections := (connections this)(ident \<mapsto> connectToStream v c2) \<rparr>)
            \<and> connectToStream v c2
              = c2\<lparr> stream := Some (io_open v (streamUrl c2) (apiKey (creds c2))) \<rparr>)"
  by (auto simp add: connectToBroker_cases connectToStream_eq)

theorem connectToBroker_failure_registers_nothing_witness:
  "(\<exists>c1 e. authenticate down_venue (new_connection oanda ''oanda'' \<lparr> apiKey = ''new-key'' \<rparr> True) = Inr c1
           \<and> getAccountInfo down_venue c1 = Inl e)
   \<and> (\<exists>e. connectToBroker down_venue registered ''oanda'' \<lparr> apiKey = ''new-key'' \<rparr> True
            = (Inl e, registered))
   \<and> authenticate stream_down_venue (new_connection oanda ''oanda'' \<lparr> apiKey = ''new-key'' \<rparr> True)
       = Inr (new_session\<lparr> accountInfo := None, stream := None \<rparr>)
   \<and> getAccountInfo stream_down_venue (new_session\<lparr> accountInfo := None, stream := None \<rparr>)
       = Inr (new_session\<lparr> stream := None \<rparr>)
   \<and> connectToBroker stream_down_venue unregistered ''oanda'' \<lparr> apiKey = ''new-key'' \<rparr> True
       = (Inr (connectToStream stream_down_venue (new_session\<lparr> stream := None \<rparr>)),
          unregistered\<lparr> connections := (connections unregistered)
             (''oanda'' \<mapsto> connectToStream stream_down_venue (new_session\<lparr> stream := None \<rparr>)) \<rparr>)"
proof -
  let ?c0 = "new_connection oanda ''oanda'' \<lparr> apiKey = ''new-key'' \<rparr> True"
  have h: "\<exists>c1 e. authenticate down_venue ?c0 = Inr c1 \<and> getAccountInfo down_venue c1 = Inl e"
    by (simp add: authenticate_def authenticateOanda_def getAccountInfo_def
        getOandaAccountInfo_def down_venue_def good_venue_def new_connection_def)
  have a: "authenticate stream_down_venue ?c0
             = Inr (new_session\<lparr> accountInfo := None, stream := None \<rparr>)"
    by (simp add: authenticate_def authenticateOanda_def stream_down_venue_def good_venue_def
        new_connection_def new_session_def oanda_def or_else_def)
  have g: "getAccountInfo stream_down_venue (new_session\<lparr> accountInfo := None, stream := None \<rparr>)
             = Inr (new_session\<lparr> stream := None \<rparr>)"
    by (simp add: getAccountInfo_def getOandaAccountInfo_def stream_down_venue_def good_venue_def
        new_session_def)
  from h connectToBroker_failure_registers_nothing
         [of "''oanda''" down_venue "\<lparr> apiKey = ''new-key'' \<rparr>" True registered]
  have first: "\<exists>e. connectToBroker down_venue registered ''oanda'' \<lparr> apiKey = ''new-key'' \<rparr> True
                 = (Inl e, registered)"
    by blast
  from a g connectToBroker_failure_registers_nothing
         [of "''oanda''" stream_down_venue "\<lparr> apiKey = ''new-key'' \<rparr>" True unregistered]
  have second: "connectToBroker stream_down_venue unregistered ''oanda'' \<lparr> apiKey = ''new-key'' \<rparr> True
       = (Inr (connectToStream stream_down_venue (new_session\<lparr> stream := None \<rparr>)),
          unregistered\<lparr> connections := (connections unregistered)
             (''oanda'' \<mapsto> connectToStream stream_down_venue (new_session\<lparr> stream := None \<rparr>)) \<rparr>)"
    by blast
  from h first a g second show ?thesis by blast
qed

text \<open>
  C6, as the spec states it, fails: with a session already registered under \<open>oanda\<close>, a
  second \<^verbatim>\<open>connectToBroker\<close> returns a different session and the registry entry becomes
  that new session.
\<close>

theorem connect_again_counterexample:
  "connections registered ''oanda'' = Some old_session
   \<and> fst (connectToBroker good_venue registered ''oanda'' \<lparr> apiKey = ''new-key'' \<rparr> True)
       = Inr new_session
   \<and> connections (snd (connectToBroker good_venue registered ''oanda'' \<lparr> apiKey = ''new-key'' \<rparr> True))
       ''oanda'' = Some new_session
   \<and> new_session \<noteq> old_session"
  by (simp add: connect_registered) (simp add: registered_def new_session_def old_session_def)

text \<open>
  C6, amended. Calling \<^verbatim>\<open>connectToBroker\<close> for an id that already has a registered
  connection connects afresh: when the call succeeds, the session it returns carries the
  credentials and mode of this call, its account is the first one of the answer to a new
  authentication request made with these credentials, its account detail and its stream
  come from new requests, and the registry entry for the id is replaced by this session.
\<close>

theorem connectToBroker_replaces_session:
  assumes "connections this ident = Some old"
    and "fst (connectToBroker v this ident cr demo) = Inr c"
  shows "connections (snd (connectToBroker v this ident cr demo)) ident = Some c
         \<and> creds c = cr \<and> isDemo c = demo
         \<and> (\<exists>r a as. get_accounts v (baseUrl c) (apiKey cr) = Inr r \<and> status r = 200
                \<and> data_accounts r = Some (a # as) \<and> account c = Some a
                \<and> (\<exists>d. get_account v (baseUrl c) (account_id a) (apiKey cr) = Inr d
                       \<and> accountInfo c = Some d))
         \<and> stream c = Some (io_open v (streamUrl c) (apiKey cr))"
proof -
  let ?c0 = "new_connection oanda ident cr demo"
  from connectToBroker_Inr [OF assms(2)] obtain c1 c2 where
    s1: "authenticate v ?c0 = Inr c1" and s2: "getAccountInfo v c1 = Inr c2"
    and s3: "connectToStream v c2 = c"
    and reg: "snd (connectToBroker v this ident cr demo)
                = this\<lparr> connections := (connections this)(ident \<mapsto> c) \<rparr>"
    by blast
  from authenticate_Inr [OF s1] obtain r as where
    r: "get_accounts v (baseUrl ?c0) (apiKey (creds ?c0)) = Inr r" "status r = 200"
       "data_accounts r = Some as"
    and c1: "c1 = ?c0\<lparr> account := (case as of [] \<Rightarrow> None | a # _ \<Rightarrow> Some a), connected := True \<rparr>"
    by blast
  from getAccountInfo_Inr [OF s2] obtain a d where
    a: "account c1 = Some a"
    and d: "get_account v (baseUrl c1) (account_id a) (apiKey (creds c1)) = Inr d"
    and c2: "c2 = c1\<lparr> accountInfo := Some d \<rparr>"
    by blast
  from s3 have c: "c = c2\<lparr> stream := Some (io_open v (streamUrl c2) (apiKey (creds c2))) \<rparr>"
    by (simp add: connectToStream_eq)
  from a c1 obtain as' where as: "as = a # as'"
    by (cases as) simp_all
  have cr: "creds ?c0 = cr" and dm: "isDemo ?c0 = demo"
    by (simp_all add: new_connection_def)
  have "connections (snd (connectToBroker v this ident cr demo)) ident = Some c"
    by (simp add: reg)
  moreover have "creds c = cr \<and> isDemo c = demo"
    by (simp add: c c2 c1 cr dm)
  moreover have "get_accounts v (baseUrl c) (apiKey cr) = Inr r"
    using r(1) by (simp add: c c2 c1 cr)
  moreover have "account c = Some a"
    using a by (simp add: c c2)
  moreover have "get_account v (baseUrl c) (account_id a) (apiKey cr) = Inr d"
    using d by (simp add: c c2 c1 cr)
  moreover have "accountInfo c = Some d"
    by (simp add: c c2)
  moreover have "stream c = Some (io_open v (streamUrl c) (apiKey cr))"
    by (simp add: c c2 c1 cr)
  ultimately show ?thesis
    using r(2,3) as by blast
qed

theorem connectToBroker_replaces_session_witness:
  "connections registered ''oanda'' = Some old_session
   \<and> fst (connectToBroker good_venue registered ''oanda'' \<lparr> apiKey = ''new-key'' \<rparr> True) = Inr new_session
   \<and> connections (snd (connectToBroker good_venue registered ''oanda'' \<lparr> apiKey = ''new-key'' \<rparr> True)) ''oanda''
       = Some new_session
   \<and> creds new_session = \<lparr> apiKey = ''new-key'' \<rparr>"
proof -
  have a: "connections registered ''oanda'' = Some old_session"
    by (simp add: registered_def)
  have b: "fst (connectToBroker good_venue registered ''oanda'' \<lparr> apiKey = ''new-key'' \<rparr> True) = Inr new_session"
    by (simp add: connect_registered)
  from connectToBroker_replaces_session [OF a b] a b show ?thesis by simp
qed

section \<open>Properties of order placement\<close>

text \<open>
  C7, as the spec states it, fails: a limit order that supplies price 0, stop loss 0 and
  take profit 0 is posted with no price property and neither block.
\<close>

theorem orderData_supplied_counterexample:
  "op_type zero_priced = Some ''LIMIT'' \<and> op_price zero_priced \<noteq> None
   \<and> order_price (orderData zero_priced) = None
   \<and> op_stopLoss zero_priced \<noteq> None \<and> stopLossOnFill (orderData zero_priced) = None
   \<and> op_takeProfit zero_priced \<noteq> None \<and> takeProfitOnFill (orderData zero_priced) = None"
  by (simp add: orderData_def zero_priced_def truthy_num_def)

text \<open>
  C7, amended. The payload has units \<open>+units\<close> when the side is \<open>BUY\<close> and \<open>-units\<close>
  otherwise. It has a price exactly when the order type is \<open>LIMIT\<close> and a non-zero price
  is supplied, a stop-loss block exactly when a non-zero stop loss is supplied, and a
  take-profit block exactly when a non-zero take profit is supplied; each carries the
  supplied value.
\<close>

theorem orderData_payload:
  "order_units (orderData p) = (if op_side p = ''BUY'' then op_units p else - op_units p)
   \<and> order_price (orderData p)
       = (if op_type p = Some ''LIMIT'' \<and> (\<exists>x. op_price p = Some x \<and> x \<noteq> 0)
          then op_price p else None)
   \<and> stopLossOnFill (orderData p)
       = (if \<exists>x. op_stopLoss p = Some x \<and> x \<noteq> 0 then op_stopLoss p else None)
   \<and> takeProfitOnFill (orderData p)
       = (if \<exists>x. op_takeProfit p = Some x \<and> x \<noteq> 0 then op_takeProfit p else None)"
  by (auto simp add: orderData_def truthy_num_def Let_def split: option.splits)

lemma placeOrder_posts_orderData:
  "account c = Some a
   \<Longrightarrow> placeOrder v c p = post_order v (baseUrl c) (account_id a) (apiKey (creds c)) (orderData p)"
  by (simp add: placeOrder_def placeOandaOrder_def)

section \<open>Properties of the market data service\<close>

text \<open>
  C8, as the spec states it, fails: for a quote with bid 2 and ask 1 the tick keeps both
  values and its spread is \<open>-1\<close>.
\<close>

theorem spread_negative_counterexample:
  "ev_bid inverted_quote > ev_ask inverted_quote
   \<and> bid (processRealTimeData 0 inverted_quote) = 2
   \<and> ask (processRealTimeData 0 inverted_quote) = 1
   \<and> spread (processRealTimeData 0 inverted_quote) = - 1
   \<and> spread (processRealTimeData 0 inverted_quote) < 0"
  by (simp add: processRealTimeData_def parseFloat_def inverted_quote_def)

text \<open>
  C8, amended. The tick produced from a price event has spread equal to ask minus bid,
  where ask and bid are the event's own values; nothing is clamped, so the spread is
  non-negative exactly when the event's bid is at most its ask.
\<close>

theorem spread_is_ask_minus_bid:
  "spread (processRealTimeData now d)
     = ask (processRealTimeData now d) - bid (processRealTimeData now d)
   \<and> ask (processRealTimeData now d) = ev_ask d
   \<and> bid (processRealTimeData now d) = ev_bid d
   \<and> (0 \<le> spread (processRealTimeData now d)) = (ev_bid d \<le> ev_ask d)"
  by (simp add: processRealTimeData_def parseFloat_def)

text \<open>
  C4. A cache read returns a snapshot exactly when the key has an entry holding that
  snapshot whose age \<open>now - cachedAt\<close> is below 60000 ms, and returns nothing exactly when
  there is no such fresh entry; the read leaves the service, stale entries included, as it
  was. A read at the time of a write under the same key returns the written snapshot, and
  a read 61 seconds after the write returns nothing.
\<close>

theorem getCachedData_fresh_only:
  "(fst (getCachedData now this symb timeframe) = Some s)
     = (\<exists>e. cache this (cache_key symb timeframe) = Some e \<and> data e = s
            \<and> now - cachedAt e < 60000)
   \<and> (fst (getCachedData now this symb timeframe) = None)
     = (\<not> (\<exists>e. cache this (cache_key symb timeframe) = Some e \<and> now - cachedAt e < 60000))
   \<and> snd (getCachedData now this symb timeframe) = this
   \<and> fst (getCachedData now (updateCache now this symb d) symb (timeframe_or_realtime d)) = Some d
   \<and> fst (getCachedData (now + 61000) (updateCache now this symb d) symb (timeframe_or_realtime d))
       = None"
  by (auto simp add: getCachedData_def updateCache_def split: option.splits)

lemma convertTimeframe_table:
  "map convertTimeframe validTimeframes =
     [Str ''M1'', Str ''M5'', Str ''M15'', Str ''M30'', Str ''H1'', Str ''H4'', Str ''D'',
      Str ''1w'', Str ''1M'']"
  by (simp add: validTimeframes_def convertTimeframe_def get_field_def conversions_def
      object_prototype_def)

lemma convertTimeframe_other:
  assumes "timeframe \<notin> set [''1m'', ''5m'', ''15m'', ''30m'', ''1h'', ''4h'', ''1d'']"
    and "timeframe \<notin> fst ` set object_prototype"
  shows "convertTimeframe timeframe = Str timeframe"
  using assms
  by (simp add: convertTimeframe_def get_field_def conversions_def object_prototype_def)

text \<open>
  C10 says every string outside the seven tokens comes back unchanged. The lookup
  \<^verbatim>\<open>conversions[timeframe]\<close> also finds what the table inherits: for the string
  \<open>constructor\<close>, which is not a key of the table, the conversion returns the inherited
  built-in and not the string.
\<close>

theorem convertTimeframe_inherited:
  "''constructor'' \<notin> dom conversions
   \<and> convertTimeframe ''constructor'' = Builtin ''constructor''
   \<and> convertTimeframe ''constructor'' \<noteq> Str ''constructor''"
  by (simp add: convertTimeframe_def get_field_def conversions_def object_prototype_def)

section \<open>Properties of reconnection\<close>

lemma dropped_eq:
  "dropped = \<lparr> service = \<lparr> subscribers = Map.empty, md_connections = [''EUR_USD'' \<mapsto> 0], cache = Map.empty \<rparr>,
               handlers = [0 \<mapsto> (''EUR_USD'', 7)],
               timers = [\<lparr> due = 5000, t_symbol = ''EUR_USD'', t_callback = 7 \<rparr>],
               fresh = 1 \<rparr>"
  by (simp add: dropped_def idle_def md_connectToStream_def on_disconnect_def)

lemma disconnect_dropped:
  "md_disconnect False dropped 1000 ''EUR_USD''
     = \<lparr> service = \<lparr> subscribers = Map.empty, md_connections = Map.empty, cache = Map.empty \<rparr>,
         handlers = [0 \<mapsto> (''EUR_USD'', 7)],
         timers = [\<lparr> due = 5000, t_symbol = ''EUR_USD'', t_callback = 7 \<rparr>],
         fresh = 1 \<rparr>"
  by (simp add: dropped_eq md_disconnect_def)

lemma md_connectToStream_keeps:
  "md_connections (service rt) s \<noteq> None
   \<Longrightarrow> md_connections (service (md_connectToStream rt s' cb)) s \<noteq> None"
  by (simp add: md_connectToStream_def Let_def)

lemma md_connectToStream_sets:
  "md_connections (service (md_connectToStream rt s cb)) s = Some (fresh rt)"
  by (simp add: md_connectToStream_def Let_def)

lemma fire_due_keeps:
  "md_connections (service rt) s \<noteq> None
   \<Longrightarrow> md_connections (service (fire_due now ts rt)) s \<noteq> None"
proof (induction ts arbitrary: rt)
  case Nil
  then show ?case by simp
next
  case (Cons t ts)
  show ?case
  proof (cases "due t \<le> now")
    case True
    with Cons.IH [OF md_connectToStream_keeps [OF Cons.prems]] show ?thesis by simp
  next
    case False
    with Cons.IH [of "rt\<lparr> timers := timers rt @ [t] \<rparr>"] Cons.prems show ?thesis by simp
  qed
qed

lemma fire_due_reconnects:
  "t \<in> set ts \<Longrightarrow> due t \<le> now
   \<Longrightarrow> md_connections (service (fire_due now ts rt)) (t_symbol t) \<noteq> None"
proof (induction ts arbitrary: rt)
  case Nil
  then show ?case by simp
next
  case (Cons u ts)
  show ?case
  proof (cases "u = t")
    case True
    have "md_connections (service (md_connectToStream rt (t_symbol t) (t_callback t))) (t_symbol t)
            \<noteq> None"
      by (simp add: md_connectToStream_sets)
    from fire_due_keeps [OF this] True Cons.prems(2) show ?thesis by simp
  next
    case False
    with Cons.prems have "t \<in> set ts" by simp
    from Cons.IH [OF this Cons.prems(2)] show ?thesis by simp
  qed
qed

lemma md_disconnect_timers:
  "set (timers rt) \<subseteq> set (timers (md_disconnect emits rt now symb))"
  by (auto simp add: md_disconnect_def on_disconnect_def Let_def split: option.splits prod.splits)

lemma md_disconnect_removes:
  "md_connections (service (md_disconnect emits rt now symb)) symb = None"
  by (auto simp add: md_disconnect_def on_disconnect_def Let_def split: option.splits prod.splits)

text \<open>
  C9, as the spec states it, fails: the stream for \<open>EUR_USD\<close> drops at time 0, the symbol
  is disconnected by hand at time 1000 and leaves the registry, and when the timer set by
  the drop runs at time 5000 the symbol is connected again, on a new socket.
\<close>

theorem reconnect_after_disconnect_counterexample:
  "md_connections (service (md_disconnect False dropped 1000 ''EUR_USD'')) ''EUR_USD'' = None
   \<and> md_connections (service (run_timers (md_disconnect False dropped 1000 ''EUR_USD'') 5000))
       ''EUR_USD'' = Some 1"
  by (simp add: disconnect_dropped run_timers_def md_connectToStream_def)

text \<open>
  C9, amended. An explicit disconnect of a symbol removes the symbol from the connections
  registry, but a reconnect that a prior drop has scheduled for that symbol stays pending,
  and once its delay has elapsed it runs without any check and registers the symbol again.
\<close>

theorem disconnect_keeps_pending_reconnect:
  assumes "t \<in> set (timers rt)" and "t_symbol t = symb" and "due t \<le> later"
  shows "md_connections (service (md_disconnect emits rt now symb)) symb = None
         \<and> t \<in> set (timers (md_disconnect emits rt now symb))
         \<and> md_connections (service (run_timers (md_disconnect emits rt now symb) later)) symb
             \<noteq> None"
proof -
  let ?rt = "md_disconnect emits rt now symb"
  have pending: "t \<in> set (timers ?rt)"
    using assms(1) md_disconnect_timers by blast
  have "md_connections (service (fire_due later (timers ?rt) (?rt\<lparr> timers := [] \<rparr>))) (t_symbol t)
          \<noteq> None"
    by (rule fire_due_reconnects [OF pending assms(3)])
  then show ?thesis
    using pending assms(2) by (simp add: run_timers_def md_disconnect_removes)
qed

theorem disconnect_keeps_pending_reconnect_witness:
  "\<lparr> due = 5000, t_symbol = ''EUR_USD'', t_callback = 7 \<rparr> \<in> set (timers dropped)
   \<and> md_connections (service (md_disconnect False dropped 1000 ''EUR_USD'')) ''EUR_USD'' = None
   \<and> md_connections (service (run_timers (md_disconnect False dropped 1000 ''EUR_USD'') 6000))
       ''EUR_USD'' \<noteq> None"
proof -
  have a: "\<lparr> due = 5000, t_symbol = ''EUR_USD'', t_callback = 7 \<rparr> \<in> set (timers dropped)"
    by (simp add: dropped_eq)
  from disconnect_keeps_pending_reconnect [OF a, of "''EUR_USD''" 6000 False 1000] a
  show ?thesis by simp
qed

end
